theory Spec2Isabelle
  imports Main
begin

section \<open>The line-range deletion script \<open>delete_lines.py\<close>\<close>

text \<open>
  The script reads \<open>App.tsx\<close> with \<open>readlines\<close>, builds
  \<open>new_lines = lines[:822] + lines[1404:]\<close>, writes that buffer back with
  \<open>writelines\<close> and prints one summary line. A line is a \<open>string\<close> that carries its
  own terminator; the line buffer is a \<open>string list\<close>.
\<close>

subsection \<open>Python list slicing\<close>

text \<open>
  A slice bound of a list with \<open>n\<close> elements is an unbounded Python integer. A negative
  bound counts from the end, and every bound is clamped into \<open>0..n\<close>; a slice never
  raises. \<open>xs[:i]\<close> keeps the elements before the adjusted bound, \<open>xs[i:]\<close> those from
  it on.
\<close>

definition slice_index :: "nat \<Rightarrow> int \<Rightarrow> nat" where
  "slice_index n i = (if i < 0 then nat (max 0 (int n + i)) else nat (min i (int n)))"

definition slice_upto :: "'a list \<Rightarrow> int \<Rightarrow> 'a list" where
  "slice_upto xs i = take (slice_index (length xs) i) xs"

definition slice_from :: "'a list \<Rightarrow> int \<Rightarrow> 'a list" where
  "slice_from xs i = drop (slice_index (length xs) i) xs"

subsection \<open>The transform of line 10\<close>

text \<open>\<open>new_lines = lines[:822] + lines[1404:]\<close>\<close>

definition new_lines :: "string list \<Rightarrow> string list" where
  "new_lines lines = slice_upto lines 822 @ slice_from lines 1404"

text \<open>
  The same expression with the two literals replaced by variables,
  \<open>buffer[:a] + buffer[b:]\<close>.
\<close>

definition delete_lines :: "string list \<Rightarrow> int \<Rightarrow> int \<Rightarrow> string list" where
  "delete_lines buffer a b = slice_upto buffer a @ slice_from buffer b"

subsection \<open>The summary line\<close>

text \<open>
  \<open>str\<close> of a Python integer: decimal digits, most significant first, with a minus sign
  for a negative number.
\<close>

definition digit_char :: "nat \<Rightarrow> char" where
  "digit_char d = ''0123456789'' ! d"

function str_nat :: "nat \<Rightarrow> string" where
  "str_nat n = (if n < 10 then [digit_char n] else str_nat (n div 10) @ [digit_char (n mod 10)])"
  by pat_completeness auto
termination
  by (relation "measure (\<lambda>n. n)") auto

declare str_nat.simps [simp del]

definition str_int :: "int \<Rightarrow> string" where
  "str_int i = (if i < 0 then CHR ''-'' # str_nat (nat (- i)) else str_nat (nat i))"

text \<open>
  The f-string \<open>f"Deleted {d} lines. New file has {t} lines."\<close> with its two fields
  as arguments, and the call of line 16, which fills them with \<open>1404 - 822\<close> and
  \<open>len(new_lines)\<close>.
\<close>

definition summary_line :: "int \<Rightarrow> int \<Rightarrow> string" where
  "summary_line d t =
     ''Deleted '' @ str_int d @ '' lines. New file has '' @ str_int t @ '' lines.''"

definition summary :: "string list \<Rightarrow> string" where
  "summary nl = summary_line (1404 - 822) (int (length nl))"

subsection \<open>Files, the environment and the whole run\<close>

text \<open>
  What is stored at a path is a directory or a regular file with its bytes, one
  \<open>char\<close> per byte, together with the two access rights the script needs. The file
  system maps a path to what is there, if anything.
\<close>

datatype kind = Directory | Regular string

record text_file =
  readable :: bool
  writable :: bool
  kind :: kind

type_synonym filesystem = "string \<rightharpoonup> text_file"

text \<open>
  The script calls \<open>open\<close> without an encoding and without a newline argument, so the
  text layer between the bytes and the line buffer is fixed by the environment of the
  run (locale and platform), not by the script. The environment gives
  \<^item> \<open>decode_lines\<close>: the list of lines \<open>readlines\<close> returns for the bytes of a file, or
    \<open>None\<close> when the bytes are not valid in the encoding (\<open>UnicodeDecodeError\<close>);
  \<^item> \<open>encode_lines\<close>: the bytes \<open>writelines\<close> stores for a list of lines;
  \<^item> \<open>read_fault\<close>, \<open>write_fault\<close>: the operating system fails the open or the read
    of the file, or refuses the open for writing, for a reason other than existence,
    kind and access rights (\<open>OSError\<close>: too many open files, a read-only file system,
    an input/output error).
  How an environment represents the characters of a line is its own choice: the script
  never looks inside a line. A failure of the device after the file has been truncated
  is not part of the model.
\<close>

record environment =
  decode_lines :: "string \<Rightarrow> string list option"
  encode_lines :: "string list \<Rightarrow> string"
  read_fault :: bool
  write_fault :: bool

datatype py_error =
  FileNotFoundError | PermissionError | IsADirectoryError | OSError | UnicodeDecodeError

definition target :: string where
  "target = ''App.tsx''"

text \<open>
  \<open>with open(p, 'r') as f: lines = f.readlines()\<close>, with the error cases as on a POSIX
  system.
\<close>

definition read_lines :: "environment \<Rightarrow> filesystem \<Rightarrow> string \<Rightarrow> py_error + string list" where
  "read_lines env fs p =
     (case fs p of
        None \<Rightarrow> Inl FileNotFoundError
      | Some f \<Rightarrow>
          if \<not> readable f then Inl PermissionError
          else if read_fault env then Inl OSError
          else (case kind f of
                  Directory \<Rightarrow> Inl IsADirectoryError
                | Regular bs \<Rightarrow>
                    (case decode_lines env bs of
                       None \<Rightarrow> Inl UnicodeDecodeError
                     | Some ls \<Rightarrow> Inr ls)))"

text \<open>
  \<open>with open(p, 'w') as f: f.writelines(ls)\<close>. Mode \<open>'w'\<close> creates a missing file
  and replaces the contents of an existing one.
\<close>

definition write_lines ::
  "environment \<Rightarrow> filesystem \<Rightarrow> string \<Rightarrow> string list \<Rightarrow> py_error + filesystem" where
  "write_lines env fs p ls =
     (case fs p of
        None \<Rightarrow>
          if write_fault env then Inl OSError
          else Inr (fs(p \<mapsto> \<lparr>readable = True, writable = True,
                                kind = Regular (encode_lines env ls)\<rparr>))
      | Some f \<Rightarrow>
          (case kind f of
             Directory \<Rightarrow> Inl IsADirectoryError
           | Regular bs \<Rightarrow>
               if \<not> writable f then Inl PermissionError
               else if write_fault env then Inl OSError
               else Inr (fs(p \<mapsto> f\<lparr>kind := Regular (encode_lines env ls)\<rparr>))))"

text \<open>
  The script, top to bottom. An exception of the read or of the write is not caught:
  it ends the script before anything later runs. On success the result is the new
  file system and the printed line.
\<close>

definition script :: "environment \<Rightarrow> filesystem \<Rightarrow> py_error + (filesystem \<times> string)" where
  "script env fs =
     (case read_lines env fs target of
        Inl e \<Rightarrow> Inl e
      | Inr lines \<Rightarrow>
          (case write_lines env fs target (new_lines lines) of
             Inl e \<Rightarrow> Inl e
           | Inr fs' \<Rightarrow> Inr (fs', summary (new_lines lines))))"

text \<open>
  The process around the script: an uncaught exception leaves standard output empty,
  the files as they were and the exit status 1; a normal end has exit status 0.
\<close>

record process =
  exit_status :: nat
  stdout :: "string list"
  files :: filesystem

definition run :: "environment \<Rightarrow> filesystem \<Rightarrow> process" where
  "run env fs =
     (case script env fs of
        Inl e \<Rightarrow> \<lparr>exit_status = 1, stdout = [], files = fs\<rparr>
      | Inr (fs', out) \<Rightarrow> \<lparr>exit_status = 0, stdout = [out], files = fs'\<rparr>)"


text \<open>The bytes stored at the target, if it is a regular file.\<close>

definition target_bytes :: "filesystem \<Rightarrow> string option" where
  "target_bytes fs =
     (case fs target of
        None \<Rightarrow> None
      | Some f \<Rightarrow> (case kind f of Directory \<Rightarrow> None | Regular bs \<Rightarrow> Some bs))"

subsection \<open>Two concrete environments\<close>

text \<open>
  Text mode with universal newlines: after decoding, a carriage return followed by a
  line feed and a lone carriage return become a line feed, and \<open>readlines\<close> cuts the
  text after every line feed; a last line without terminator is kept as it is.
\<close>

abbreviation LF :: char where "LF \<equiv> CHR 0x0A"

abbreviation CR :: char where "CR \<equiv> CHR 0x0D"

fun universal_newlines :: "string \<Rightarrow> string" where
  "universal_newlines [] = []"
| "universal_newlines [c] = [if c = CR then LF else c]"
| "universal_newlines (c # d # cs) =
     (if c = CR \<and> d = LF then LF # universal_newlines cs
      else if c = CR then LF # universal_newlines (d # cs)
      else c # universal_newlines (d # cs))"

fun splitlines :: "string \<Rightarrow> string list" where
  "splitlines [] = []"
| "splitlines (c # cs) =
     (if c = LF then [c] # splitlines cs
      else (case splitlines cs of [] \<Rightarrow> [[c]] | l # ls \<Rightarrow> (c # l) # ls))"

text \<open>
  A POSIX system (the line separator is the line feed, so writing translates nothing
  and \<open>writelines\<close> stores the lines one after the other) with the ASCII
  encoding, in which a byte of 128 or more is invalid, and one with Latin-1, in which
  every byte is a character.
\<close>

definition ascii_readlines :: "string \<Rightarrow> string list option" where
  "ascii_readlines bs =
     (if list_all (\<lambda>c. (of_char c :: nat) < 128) bs
      then Some (splitlines (universal_newlines bs)) else None)"

definition posix_ascii :: environment where
  "posix_ascii = \<lparr>decode_lines = ascii_readlines, encode_lines = concat,
                   read_fault = False, write_fault = False\<rparr>"


subsection \<open>Sample inputs\<close>

text \<open>
  A buffer of \<open>n\<close> lines in which every line holds its own 1-indexed line number and
  a line feed, and a file system that holds the target alone, as a regular file.
\<close>

definition numbered :: "nat \<Rightarrow> string list" where
  "numbered n = map (\<lambda>k. str_nat (Suc k) @ [CHR 0x0A]) [0..<n]"

definition single_file :: "bool \<Rightarrow> bool \<Rightarrow> string \<Rightarrow> filesystem" where
  "single_file r w bs = [target \<mapsto> \<lparr>readable = r, writable = w, kind = Regular bs\<rparr>]"

text \<open>
  A line of ASCII characters that ends in its only line feed and has no carriage
  return; every line of \<open>numbered\<close> is one.
\<close>

definition plain_line :: "string \<Rightarrow> bool" where
  "plain_line l =
     (l \<noteq> [] \<and> last l = LF \<and>
      list_all (\<lambda>c. c \<noteq> LF \<and> c \<noteq> CR \<and> (of_char c :: nat) < 128) (butlast l))"

section \<open>Basic facts\<close>

lemma slice_upto_nonneg: "0 \<le> i \<Longrightarrow> slice_upto xs i = take (nat i) xs"
  by (simp add: slice_upto_def slice_index_def min_def)

lemma slice_from_nonneg: "0 \<le> i \<Longrightarrow> slice_from xs i = drop (nat i) xs"
  by (simp add: slice_from_def slice_index_def min_def)

lemma new_lines_take_drop: "new_lines lines = take 822 lines @ drop 1404 lines"
  by (simp add: new_lines_def slice_upto_nonneg slice_from_nonneg)

lemma new_lines_delete_lines: "new_lines lines = delete_lines lines 822 1404"
  by (simp add: new_lines_def delete_lines_def)

lemma length_new_lines:
  "length (new_lines lines) = min (length lines) 822 + (length lines - 1404)"
  by (simp add: new_lines_take_drop)

lemma length_numbered: "length (numbered n) = n"
  by (simp add: numbered_def)

lemma nth_numbered: "k < n \<Longrightarrow> numbered n ! k = str_nat (Suc k) @ [CHR 0x0A]"
  by (simp add: numbered_def)

lemma new_lines_nths: "new_lines lines = nths lines {i. i < 822 \<or> 1404 \<le> i}"
proof (cases "length lines \<le> 822")
  case True
  then have "nths lines {i. i < 822 \<or> 1404 \<le> i} = lines"
    by (intro nths_all) auto
  with True show ?thesis by (simp add: new_lines_take_drop)
next
  case False
  let ?A = "{i::nat. i < 822 \<or> 1404 \<le> i}"
  have len: "length (take 822 lines) = 822" using False by simp
  have shift: "{j. j + 822 \<in> ?A} = {j. 582 \<le> j}" by auto
  have "nths lines ?A = nths (take 822 lines @ drop 822 lines) ?A" by simp
  also have "\<dots> = nths (take 822 lines) ?A @ nths (drop 822 lines) {j. j + 822 \<in> ?A}"
    by (simp only: nths_append len)
  also have "nths (take 822 lines) ?A = take 822 lines"
    by (intro nths_all) auto
  also have "nths (drop 822 lines) {j. j + 822 \<in> ?A} = drop 582 (drop 822 lines)"
    by (simp only: shift drop_eq_nths)
  also have "\<dots> = drop 1404 lines" by simp
  finally show ?thesis by (simp add: new_lines_take_drop)
qed

lemma summary_text:
  "summary nl = ''Deleted 582 lines. New file has '' @ str_int (int (length nl)) @ '' lines.''"
  by (simp add: summary_def summary_line_def str_int_def str_nat.simps digit_char_def)

lemma universal_newlines_id: "CR \<notin> set t \<Longrightarrow> universal_newlines t = t"
  by (induction t rule: universal_newlines.induct) auto

lemma splitlines_terminated:
  "LF \<notin> set b \<Longrightarrow> splitlines (b @ LF # rest) = (b @ [LF]) # splitlines rest"
  by (induction b) auto

lemma plain_line_iff:
  "plain_line l =
     (\<exists>b. l = b @ [LF] \<and> list_all (\<lambda>c. c \<noteq> LF \<and> c \<noteq> CR \<and> (of_char c :: nat) < 128) b)"
proof
  assume "plain_line l"
  then have ne: "l \<noteq> []" and la: "last l = LF"
    and bl: "list_all (\<lambda>c. c \<noteq> LF \<and> c \<noteq> CR \<and> (of_char c :: nat) < 128) (butlast l)"
    by (simp_all add: plain_line_def)
  from ne have "butlast l @ [last l] = l" by (rule append_butlast_last_id)
  with la have "l = butlast l @ [LF]" by simp
  with bl show "\<exists>b. l = b @ [LF] \<and>
      list_all (\<lambda>c. c \<noteq> LF \<and> c \<noteq> CR \<and> (of_char c :: nat) < 128) b"
    by blast
next
  assume "\<exists>b. l = b @ [LF] \<and>
      list_all (\<lambda>c. c \<noteq> LF \<and> c \<noteq> CR \<and> (of_char c :: nat) < 128) b"
  then show "plain_line l" by (auto simp add: plain_line_def)
qed

lemma splitlines_concat: "list_all plain_line ls \<Longrightarrow> splitlines (concat ls) = ls"
proof (induction ls)
  case Nil
  then show ?case by simp
next
  case (Cons l ls)
  then obtain b where b: "l = b @ [LF]" "LF \<notin> set b"
    by (auto simp add: plain_line_iff list_all_iff)
  with Cons show ?case by (simp add: splitlines_terminated)
qed

lemma plain_lines_no_CR: "list_all plain_line ls \<Longrightarrow> CR \<notin> set (concat ls)"
  by (induction ls) (auto simp add: plain_line_iff list_all_iff)

lemma plain_lines_ascii:
  "list_all plain_line ls \<Longrightarrow> list_all (\<lambda>c. (of_char c :: nat) < 128) (concat ls)"
  by (induction ls) (auto simp add: plain_line_iff list_all_iff)

lemma ascii_readlines_concat:
  "list_all plain_line ls \<Longrightarrow> ascii_readlines (concat ls) = Some ls"
proof -
  assume pl: "list_all plain_line ls"
  have "universal_newlines (concat ls) = concat ls"
    using plain_lines_no_CR [OF pl] by (rule universal_newlines_id)
  with pl show ?thesis
    by (simp add: ascii_readlines_def plain_lines_ascii splitlines_concat)
qed

lemma digit_char_plain: "d < 10 \<Longrightarrow> digit_char d \<in> set ''0123456789''"
  unfolding digit_char_def by (rule nth_mem) simp

lemma str_nat_digits: "set (str_nat n) \<subseteq> set ''0123456789''"
proof (induction n rule: str_nat.induct)
  case (1 n)
  show ?case
  proof (cases "n < 10")
    case True
    then show ?thesis using digit_char_plain [of n] by (subst str_nat.simps) simp
  next
    case False
    have "n mod 10 < 10" by simp
    then have "digit_char (n mod 10) \<in> set ''0123456789''" by (rule digit_char_plain)
    with False "1.IH" show ?thesis by (subst str_nat.simps) simp
  qed
qed

lemma plain_numbered: "list_all plain_line (numbered n)"
proof -
  have "plain_line (str_nat k @ [LF])" for k
    unfolding plain_line_iff list_all_iff
    using str_nat_digits [of k] by auto
  then show ?thesis by (simp add: numbered_def list_all_iff)
qed

lemma plain_new_lines: "list_all plain_line ls \<Longrightarrow> list_all plain_line (new_lines ls)"
  by (auto simp add: new_lines_take_drop list_all_iff dest: in_set_takeD in_set_dropD)

lemma script_cases:
  "script env fs =
     (case fs target of
        None \<Rightarrow> Inl FileNotFoundError
      | Some f \<Rightarrow>
          if \<not> readable f then Inl PermissionError
          else if read_fault env then Inl OSError
          else (case kind f of
                  Directory \<Rightarrow> Inl IsADirectoryError
                | Regular bs \<Rightarrow>
                    (case decode_lines env bs of
                       None \<Rightarrow> Inl UnicodeDecodeError
                     | Some lines \<Rightarrow>
                         if \<not> writable f then Inl PermissionError
                         else if write_fault env then Inl OSError
                         else Inr (fs(target \<mapsto>
                                     f\<lparr>kind := Regular (encode_lines env (new_lines lines))\<rparr>),
                                   summary (new_lines lines)))))"
  by (simp add: script_def read_lines_def write_lines_def split: option.splits kind.splits)

lemma script_ok:
  assumes "fs target = Some f" and "readable f" and "writable f"
    and "kind f = Regular bs" and "decode_lines env bs = Some lines"
    and "\<not> read_fault env" and "\<not> write_fault env"
  shows "script env fs =
           Inr (fs(target \<mapsto> f\<lparr>kind := Regular (encode_lines env (new_lines lines))\<rparr>),
                summary (new_lines lines))"
  using assms by (simp add: script_cases)

lemma run_ok:
  assumes "fs target = Some f" and "readable f" and "writable f"
    and "kind f = Regular bs" and "decode_lines env bs = Some lines"
    and "\<not> read_fault env" and "\<not> write_fault env"
  shows "run env fs =
           \<lparr>exit_status = 0, stdout = [summary (new_lines lines)],
            files = fs(target \<mapsto> f\<lparr>kind := Regular (encode_lines env (new_lines lines))\<rparr>)\<rparr>"
  using assms by (simp add: run_def script_cases)


lemma posix_ascii_simps:
  "decode_lines posix_ascii = ascii_readlines" "encode_lines posix_ascii = concat"
  "read_fault posix_ascii = False" "write_fault posix_ascii = False"
  by (simp_all add: posix_ascii_def)

lemma ascii_readlines_numbered: "ascii_readlines (concat (numbered n)) = Some (numbered n)"
  by (simp add: ascii_readlines_concat plain_numbered)

lemma ascii_readlines_new_numbered:
  "ascii_readlines (concat (new_lines (numbered n))) = Some (new_lines (numbered n))"
  by (simp add: ascii_readlines_concat plain_numbered plain_new_lines)

section \<open>Length of the result\<close>

text \<open>
  C1. When the line buffer read from the file has \<open>N\<close> lines and \<open>1404 \<le> N\<close>, the
  buffer written back has exactly \<open>N - 582\<close> lines: the length before the edit minus
  the size \<open>1404 - 822\<close> of the removed range. This holds of \<open>new_lines\<close>; a run that
  reads this buffer from an accessible regular file leaves behind the stored form of
  \<open>new_lines\<close> of it, and where the environment reads back what it stores, reading the
  file again gives \<open>N - 582\<close> lines.
\<close>

theorem new_lines_length:
  assumes "1404 \<le> length lines"
  shows "length (new_lines lines) = length lines - 582 \<and>
         length (new_lines lines) = length lines - (1404 - 822) \<and>
         (fs target = Some f \<and> readable f \<and> writable f \<and> kind f = Regular bs \<and>
          decode_lines env bs = Some lines \<and> \<not> read_fault env \<and> \<not> write_fault env \<longrightarrow>
            target_bytes (files (run env fs)) = Some (encode_lines env (new_lines lines)) \<and>
            (decode_lines env (encode_lines env (new_lines lines)) = Some (new_lines lines) \<longrightarrow>
               (\<exists>ls. read_lines env (files (run env fs)) target = Inr ls \<and>
                     length ls = length lines - 582)))"
proof -
  have len: "length (new_lines lines) = length lines - 582"
    using assms by (simp add: length_new_lines)
  have "target_bytes (files (run env fs)) = Some (encode_lines env (new_lines lines)) \<and>
        (decode_lines env (encode_lines env (new_lines lines)) = Some (new_lines lines) \<longrightarrow>
           (\<exists>ls. read_lines env (files (run env fs)) target = Inr ls \<and>
                 length ls = length lines - 582))"
    if "fs target = Some f" "readable f" "writable f" "kind f = Regular bs"
      "decode_lines env bs = Some lines" "\<not> read_fault env" "\<not> write_fault env"
    using that len by (simp add: run_ok [of fs f bs env lines] target_bytes_def read_lines_def)
  with len show ?thesis by auto
qed

theorem new_lines_length_witness:
  "1404 \<le> length (numbered 1500) \<and>
   length (new_lines (numbered 1500)) = 918 \<and>
   target_bytes (files (run posix_ascii (single_file True True (concat (numbered 1500))))) =
     Some (concat (new_lines (numbered 1500))) \<and>
   (\<exists>ls. read_lines posix_ascii
           (files (run posix_ascii (single_file True True (concat (numbered 1500))))) target =
           Inr ls \<and> length ls = 918)"
  using new_lines_length [of "numbered 1500" "single_file True True (concat (numbered 1500))"
      "\<lparr>readable = True, writable = True, kind = Regular (concat (numbered 1500))\<rparr>"
      "concat (numbered 1500)" posix_ascii]
  by (simp add: length_numbered single_file_def posix_ascii_simps ascii_readlines_numbered
      ascii_readlines_new_numbered)

section \<open>Lines outside the range\<close>

text \<open>
  C2. Every line with index below 822 and every line with index from 1404 on is in the
  output unchanged and in the input's order: \<open>output[i] = input[i]\<close> for \<open>i < 822\<close>,
  \<open>output[822 + j] = input[1404 + j]\<close> whenever \<open>1404 + j\<close> is an index of the input,
  and the output is the input restricted to the indices outside \<open>[822, 1404)\<close>.
\<close>

theorem new_lines_keeps_outside:
  "(i < 822 \<and> i < length lines \<longrightarrow>
      i < length (new_lines lines) \<and> new_lines lines ! i = lines ! i) \<and>
   (1404 + j < length lines \<longrightarrow>
      822 + j < length (new_lines lines) \<and> new_lines lines ! (822 + j) = lines ! (1404 + j)) \<and>
   new_lines lines = nths lines {k. k < 822 \<or> 1404 \<le> k}"
proof -
  have "i < 822 \<and> i < length lines \<longrightarrow>
      i < length (new_lines lines) \<and> new_lines lines ! i = lines ! i"
    by (auto simp add: new_lines_take_drop nth_append)
  moreover have "1404 + j < length lines \<longrightarrow>
      822 + j < length (new_lines lines) \<and> new_lines lines ! (822 + j) = lines ! (1404 + j)"
    by (auto simp add: new_lines_take_drop nth_append)
  ultimately show ?thesis
    using new_lines_nths [of lines] by blast
qed

theorem new_lines_keeps_outside_witness:
  "(821::nat) < 822 \<and> 821 < length (numbered 1500) \<and> 1404 + 95 < length (numbered 1500) \<and>
   new_lines (numbered 1500) ! 821 = ''822'' @ [CHR 0x0A] \<and>
   new_lines (numbered 1500) ! (822 + 95) = ''1500'' @ [CHR 0x0A]"
  using new_lines_keeps_outside [of 821 "numbered 1500" 95, THEN conjunct1]
    new_lines_keeps_outside [of 821 "numbered 1500" 95, THEN conjunct2, THEN conjunct1]
  by (simp add: length_numbered nth_numbered str_nat.simps digit_char_def)

section \<open>The summary line and the lines removed\<close>






section \<open>Short files and the scenario of 1500 lines\<close>

text \<open>
  C4. When the buffer has \<open>N < 1404\<close> lines the output is the first \<open>min 822 N\<close> lines
  of the input, so it has \<open>min 822 N\<close> lines, and a run that reads this buffer from
  an accessible regular file ends normally: it writes that buffer, prints the summary
  and exits with status 0.
\<close>

theorem short_buffer_truncates:
  assumes "length lines < 1404"
  shows "new_lines lines = take (min 822 (length lines)) lines \<and>
         length (new_lines lines) = min 822 (length lines) \<and>
         (fs target = Some f \<and> readable f \<and> writable f \<and> kind f = Regular bs \<and>
          decode_lines env bs = Some lines \<and> \<not> read_fault env \<and> \<not> write_fault env \<longrightarrow>
            script env fs =
              Inr (fs(target \<mapsto>
                     f\<lparr>kind := Regular (encode_lines env (take (min 822 (length lines)) lines))\<rparr>),
                   summary (take (min 822 (length lines)) lines)) \<and>
            exit_status (run env fs) = 0)"
proof -
  have eq: "new_lines lines = take (min 822 (length lines)) lines"
    using assms by (simp add: new_lines_take_drop min_def)
  have len: "length (new_lines lines) = min 822 (length lines)"
    using assms by (simp add: length_new_lines min.commute)
  have "script env fs =
          Inr (fs(target \<mapsto>
                 f\<lparr>kind := Regular (encode_lines env (take (min 822 (length lines)) lines))\<rparr>),
               summary (take (min 822 (length lines)) lines)) \<and>
        exit_status (run env fs) = 0"
    if "fs target = Some f" "readable f" "writable f" "kind f = Regular bs"
      "decode_lines env bs = Some lines" "\<not> read_fault env" "\<not> write_fault env"
    using that script_ok [of fs f bs env lines] run_ok [of fs f bs env lines] eq by simp
  with eq len show ?thesis by blast
qed

theorem short_buffer_truncates_witness:
  "length (numbered 1000) < 1404 \<and>
   length (new_lines (numbered 1000)) = 822 \<and>
   new_lines (numbered 1000) = take 822 (numbered 1000) \<and>
   exit_status (run posix_ascii (single_file True True (concat (numbered 1000)))) = 0 \<and>
   stdout (run posix_ascii (single_file True True (concat (numbered 1000)))) =
     [''Deleted 582 lines. New file has 822 lines.'']"
  using short_buffer_truncates [of "numbered 1000"
      "single_file True True (concat (numbered 1000))"
      "\<lparr>readable = True, writable = True, kind = Regular (concat (numbered 1000))\<rparr>"
      "concat (numbered 1000)" posix_ascii]
  by (simp add: length_numbered single_file_def ascii_readlines_numbered posix_ascii_simps
      run_def summary_text str_int_def str_nat.simps digit_char_def)

text \<open>
  C5. A buffer of exactly 1500 lines gives an output of \<open>1500 - 582 = 918\<close> lines whose
  line at index 822 is the input's line at index 1404, the 1405th line.
\<close>

theorem scenario_1500_lines:
  assumes "length lines = 1500"
  shows "length (new_lines lines) = 1500 - 582 \<and> length (new_lines lines) = 918 \<and>
         new_lines lines ! 822 = lines ! 1404"
  using assms by (simp add: new_lines_take_drop nth_append)

theorem scenario_1500_lines_witness:
  "length (numbered 1500) = 1500 \<and> length (new_lines (numbered 1500)) = 918 \<and>
   new_lines (numbered 1500) ! 822 = ''1405'' @ [CHR 0x0A]"
  using scenario_1500_lines [of "numbered 1500"]
  by (simp add: length_numbered nth_numbered str_nat.simps digit_char_def)

section \<open>Errors\<close>




section \<open>Algebraic properties\<close>

text \<open>
  C7. The transform is not idempotent. Applying it a second time changes the buffer
  exactly when the input has more than 1404 lines, and then the second application
  removes lines again: the result is strictly shorter than after one application.
\<close>

theorem new_lines_not_idempotent:
  "(\<exists>buffer. new_lines (new_lines buffer) \<noteq> new_lines buffer) \<and>
   (new_lines (new_lines lines) \<noteq> new_lines lines) = (1404 < length lines) \<and>
   (1404 < length lines \<longrightarrow> length (new_lines (new_lines lines)) < length (new_lines lines))"
proof -
  have shorter: "length (new_lines (new_lines ls)) < length (new_lines ls)"
    if "1404 < length ls" for ls :: "string list"
    using that by (simp add: length_new_lines)
  have same: "new_lines (new_lines ls) = new_lines ls"
    if "length ls \<le> 1404" for ls :: "string list"
    using that by (simp add: new_lines_take_drop)
  have differ: "new_lines (new_lines ls) \<noteq> new_lines ls"
    if "1404 < length ls" for ls :: "string list"
    using shorter [OF that] by auto
  have "1404 < length (replicate 1405 ''x'')" by simp
  then have ex: "\<exists>buffer. new_lines (new_lines buffer) \<noteq> new_lines buffer"
    using differ by blast
  have iff: "(new_lines (new_lines lines) \<noteq> new_lines lines) = (1404 < length lines)"
    using same [of lines] differ [of lines] by (cases "1404 < length lines") auto
  from ex iff shorter [of lines] show ?thesis by blast
qed

theorem new_lines_not_idempotent_witness:
  "1404 < length (numbered 1500) \<and>
   new_lines (new_lines (numbered 1500)) \<noteq> new_lines (numbered 1500) \<and>
   length (new_lines (numbered 1500)) = 918 \<and>
   length (new_lines (new_lines (numbered 1500))) = 822"
  using new_lines_not_idempotent [of "numbered 1500"]
  by (simp add: length_numbered length_new_lines)

text \<open>
  C8. With both bounds equal, \<open>buffer[:a] + buffer[a:]\<close> is the buffer itself, for
  every buffer and every integer \<open>a\<close>, negative or beyond the end included.
\<close>

theorem delete_lines_empty_range: "delete_lines buffer a a = buffer"
  by (simp add: delete_lines_def slice_upto_def slice_from_def)

section \<open>Determinism\<close>




end
